theory Spec2Isabelle
  imports Complex_Main "HOL-Library.Sublist"
begin

section \<open>JavaScript values and built-ins used by App.tsx\<close>

text \<open>
  Strings are sequences of code units below 256 (the Latin-1 range), one \<open>char\<close> each.
\<close>

text \<open>
  What a handler receives in \<^verbatim>\<open>catch (e: any)\<close>. The handlers of App.tsx read it only
  through \<^verbatim>\<open>e.message\<close>: \<open>JsError m\<close> is an object (an \<^verbatim>\<open>Error\<close>, say) whose message is
  the string \<open>m\<close>, or is \<^verbatim>\<open>undefined\<close> or \<^verbatim>\<open>null\<close> when \<open>m = None\<close>;
  \<open>NonStringMessage\<close> is an object whose message is some other value, which has no
  \<^verbatim>\<open>includes\<close> method; \<open>Nullish\<close> is a thrown \<^verbatim>\<open>null\<close> or \<^verbatim>\<open>undefined\<close>, on which
  reading \<^verbatim>\<open>e.message\<close> throws.
\<close>

datatype js_error = JsError "string option" | NonStringMessage | Nullish

text \<open>
  The \<^verbatim>\<open>TypeError\<close> of a property read on \<^verbatim>\<open>null\<close> or \<^verbatim>\<open>undefined\<close>, or of a call of
  something that is not a function. No handler of App.tsx sees it, so its text is
  immaterial.
\<close>

definition TypeError :: js_error where
  "TypeError = JsError (Some ''TypeError'')"

text \<open>
  JavaScript numbers are doubles. Those that hold integers are modelled by the integer
  they hold: \<open>int\<close> where the value is known to be finite, \<open>int option\<close> where it may be
  \<^verbatim>\<open>undefined\<close> (\<open>None\<close>), and \<open>js_number\<close> where it may be \<^verbatim>\<open>NaN\<close> or infinite.
  Quotients are \<open>real\<close>, rounding left out.
\<close>

datatype js_number = NaN | Finite int | PosInfinity | NegInfinity

text \<open>
  The double nearest to an integer (ties to the even significand): exact up to \<open>2^53\<close>
  in magnitude, 53 significant bits beyond.
\<close>

fun bit_length :: "nat \<Rightarrow> nat" where
  "bit_length n = (if n = 0 then 0 else Suc (bit_length (n div 2)))"

declare bit_length.simps [simp del]

definition round53 :: "int \<Rightarrow> int" where
  "round53 n =
     (let a = nat \<bar>n\<bar> in
      if a \<le> 9007199254740992 then n
      else
        let e = bit_length a - 53;
            q = a div 2 ^ e;
            r = a mod 2 ^ e;
            q' = (if 2 * r > 2 ^ e \<or> (2 * r = 2 ^ e \<and> odd q) then q + 1 else q)
        in sgn n * int (q' * 2 ^ e))"

text \<open>
  An integer as a number: the nearest double, infinite from \<open>2^1024\<close> on (the largest
  double is \<open>(2^53 - 1) * 2^971\<close>).
\<close>

definition to_double :: "int \<Rightarrow> js_number" where
  "to_double n =
     (let r = round53 n in
      if bit_length (nat \<bar>r\<bar>) > 1024 then (if n < 0 then NegInfinity else PosInfinity)
      else Finite r)"

text \<open>
  \<^verbatim>\<open>Number(x)\<close> on a \<^verbatim>\<open>bigint\<close> read from the contract or the gateway. These are ABI
  integers, below \<open>2^256\<close> in magnitude, so the result is finite.
\<close>

definition js_Number :: "int \<Rightarrow> int" where
  "js_Number x = round53 x"

text \<open>\<^verbatim>\<open>x || 0\<close> on a number that may be \<^verbatim>\<open>NaN\<close> or infinite: \<^verbatim>\<open>NaN\<close> and \<^verbatim>\<open>0\<close> are falsy.\<close>

definition number_or_zero :: "js_number \<Rightarrow> js_number" where
  "number_or_zero x = (case x of NaN \<Rightarrow> Finite 0 | Finite v \<Rightarrow> if v = 0 then Finite 0 else Finite v
                       | PosInfinity \<Rightarrow> PosInfinity | NegInfinity \<Rightarrow> NegInfinity)"

text \<open>\<^verbatim>\<open>x || 0\<close> on a number: \<^verbatim>\<open>NaN\<close>, \<^verbatim>\<open>undefined\<close> and \<^verbatim>\<open>0\<close> are falsy.\<close>

definition orZero :: "int option \<Rightarrow> int" where
  "orZero x = (case x of None \<Rightarrow> 0 | Some v \<Rightarrow> if v = 0 then 0 else v)"

text \<open>Truthiness of an optional number, and \<^verbatim>\<open>x > k\<close> (false on \<^verbatim>\<open>undefined\<close>).\<close>

definition truthy_num :: "int option \<Rightarrow> bool" where
  "truthy_num x = (case x of None \<Rightarrow> False | Some v \<Rightarrow> v \<noteq> 0)"

definition gt_num :: "int option \<Rightarrow> int \<Rightarrow> bool" where
  "gt_num x k = (case x of None \<Rightarrow> False | Some v \<Rightarrow> v > k)"

text \<open>
  \<^verbatim>\<open>a / b\<close> never throws: a zero divisor yields \<^verbatim>\<open>NaN\<close> or an infinity. \<open>None\<close> is
  such a non-finite result.
\<close>

definition js_divide :: "real option \<Rightarrow> real \<Rightarrow> real option" where
  "js_divide a b = (case a of None \<Rightarrow> None | Some x \<Rightarrow> if b = 0 then None else Some (x / b))"

text \<open>\<^verbatim>\<open>String.prototype.includes\<close>: the argument occurs as a contiguous substring.\<close>

fun js_includes :: "string \<Rightarrow> string \<Rightarrow> bool" where
  "js_includes [] sub = (sub = [])"
| "js_includes (c # cs) sub = (prefix sub (c # cs) \<or> js_includes cs sub)"

text \<open>
  \<^verbatim>\<open>e.message?.includes(sub)\<close> as a condition. The optional chaining guards the
  message, not \<^verbatim>\<open>e\<close>: a missing message gives \<^verbatim>\<open>undefined\<close>, which is falsy, but a
  nullish \<^verbatim>\<open>e\<close> and a message without \<^verbatim>\<open>includes\<close> make the expression throw (\<open>Inl\<close>).
\<close>

definition message_includes :: "js_error \<Rightarrow> string \<Rightarrow> js_error + bool" where
  "message_includes e sub =
     (case e of
        JsError None \<Rightarrow> Inr False
      | JsError (Some m) \<Rightarrow> Inr (js_includes m sub)
      | NonStringMessage \<Rightarrow> Inl TypeError
      | Nullish \<Rightarrow> Inl TypeError)"

text \<open>
  \<^verbatim>\<open>e.message || "Unknown error"\<close>: a missing or empty message is falsy. The
  expression is reached only after \<^verbatim>\<open>e.message?.includes\<close> has returned, that is, for
  a \<open>JsError\<close>.
\<close>

definition message_or_unknown :: "js_error \<Rightarrow> string" where
  "message_or_unknown e =
     (case e of
        JsError (Some m) \<Rightarrow> if m = [] then ''Unknown error'' else m
      | _ \<Rightarrow> ''Unknown error'')"

subsection \<open>parseInt\<close>

text \<open>
  \<^verbatim>\<open>parseInt(string)\<close> without a radix (ECMAScript 19.2.5): leading white space is
  skipped, then an optional sign, then a \<^verbatim>\<open>0x\<close> prefix selects radix 16, then the
  longest prefix of digits is read; no digit gives \<^verbatim>\<open>NaN\<close>, and the integer read is
  returned as a number. The white space and line terminators below 256 are the code
  units 9 to 13, 32 and 160 (the no-break space).
\<close>

definition isWhiteSpace :: "char \<Rightarrow> bool" where
  "isWhiteSpace c = (of_char c \<in> {9, 10, 11, 12, 13, 32, 160 :: nat})"

definition digit_value :: "char \<Rightarrow> nat option" where
  "digit_value c =
     (let n = of_char c :: nat in
      if 48 \<le> n \<and> n \<le> 57 then Some (n - 48)
      else if 97 \<le> n \<and> n \<le> 122 then Some (n - 87)
      else if 65 \<le> n \<and> n \<le> 90 then Some (n - 55)
      else None)"

definition radix_digit :: "nat \<Rightarrow> char \<Rightarrow> nat option" where
  "radix_digit R c =
     (case digit_value c of None \<Rightarrow> None | Some d \<Rightarrow> if d < R then Some d else None)"

definition parseInt :: "string \<Rightarrow> js_number" where
  "parseInt inputString =
     (let S = dropWhile isWhiteSpace inputString;
          sign = (if take 1 S = ''-'' then - 1 else 1 :: int);
          S1 = (if take 1 S = ''+'' \<or> take 1 S = ''-'' then drop 1 S else S);
          hex = (take 2 S1 = ''0x'' \<or> take 2 S1 = ''0X'');
          R = (if hex then 16 else 10);
          S2 = (if hex then drop 2 S1 else S1);
          Z = takeWhile (\<lambda>c. radix_digit R c \<noteq> None) S2
      in if Z = [] then NaN
         else to_double (sign * int (foldl (\<lambda>acc c. acc * R + the (radix_digit R c)) 0 Z)))"

subsection \<open>Numbers in template literals\<close>

text \<open>
  \<^verbatim>\<open>`${n}`\<close> for a non-negative integer below \<open>10^21\<close> is its decimal numeral
  (\<^verbatim>\<open>Date.now()\<close> is at most \<open>8.64 * 10^15\<close>).
\<close>

definition digit_char :: "nat \<Rightarrow> char" where
  "digit_char d = ''0123456789'' ! d"

fun show_nat :: "nat \<Rightarrow> string" where
  "show_nat n =
     (if n < 10 then [digit_char n] else show_nat (n div 10) @ [digit_char (n mod 10)])"

declare show_nat.simps [simp del]

subsection \<open>Date.prototype.toISOString\<close>

text \<open>
  \<^verbatim>\<open>new Date(ms).toISOString()\<close> for \<open>ms \<ge> 0\<close> (ECMAScript 21.4.4.36): the UTC date
  and time as \<^verbatim>\<open>YYYY-MM-DDTHH:mm:ss.sssZ\<close>, with the expanded year \<^verbatim>\<open>+YYYYYY\<close> beyond
  the year 9999, and a RangeError when the time value is beyond \<open>8.64 * 10^15\<close>. The
  civil date of a day number follows the proleptic Gregorian calendar.
\<close>

definition civil_from_days :: "int \<Rightarrow> int \<times> int \<times> int" where
  "civil_from_days z0 =
     (let z = z0 + 719468;
          era = z div 146097;
          doe = z mod 146097;
          yoe = (doe - doe div 1460 + doe div 36524 - doe div 146096) div 365;
          y = yoe + era * 400;
          doy = doe - (365 * yoe + yoe div 4 - yoe div 100);
          mp = (5 * doy + 2) div 153;
          d = doy - (153 * mp + 2) div 5 + 1;
          m = (if mp < 10 then mp + 3 else mp - 9)
      in (if m \<le> 2 then y + 1 else y, m, d))"

definition pad_nat :: "nat \<Rightarrow> nat \<Rightarrow> string" where
  "pad_nat w n = replicate (w - length (show_nat n)) (CHR ''0'') @ show_nat n"

definition toISOString :: "nat \<Rightarrow> js_error + string" where
  "toISOString ms =
     (if ms > 8640000000000000 then Inl (JsError (Some ''Invalid time value''))
      else
        let msOfDay = ms mod 86400000;
            (y, m, d) = civil_from_days (int (ms div 86400000));
            year = (if y \<le> 9999 then pad_nat 4 (nat y) else ''+'' @ pad_nat 6 (nat y))
        in Inr (year @ ''-'' @ pad_nat 2 (nat m) @ ''-'' @ pad_nat 2 (nat d) @ ''T''
                @ pad_nat 2 (msOfDay div 3600000) @ '':''
                @ pad_nat 2 (msOfDay div 60000 mod 60) @ '':''
                @ pad_nat 2 (msOfDay div 1000 mod 60) @ ''.''
                @ pad_nat 3 (msOfDay mod 1000) @ ''Z''))"

text \<open>\<^verbatim>\<open>str.split('T')[0]\<close>: the part before the first \<^verbatim>\<open>T\<close> (all of it if there is none).\<close>

definition split_T_0 :: "string \<Rightarrow> string" where
  "split_T_0 str = takeWhile (\<lambda>c. c \<noteq> CHR ''T'') str"

section \<open>Data model of App.tsx\<close>

text \<open>
  The interface \<^verbatim>\<open>ClaimRecord\<close>. The field \<^verbatim>\<open>id\<close> is \<open>claimId\<close> here (\<open>id\<close> is HOL's
  identity function). \<^verbatim>\<open>decryptedValue?: number\<close> is optional: \<open>None\<close> is
  \<^verbatim>\<open>undefined\<close>.
\<close>

record ClaimRecord =
  claimId :: string
  policyNumber :: string
  claimAmount :: int
  claimDate :: string
  provider :: string
  status :: string
  encryptedAmount :: string
  isVerified :: bool
  decryptedValue :: "int option"
  timestamp :: int
  creator :: string

text \<open>The interface \<^verbatim>\<open>FraudStats\<close>; \<open>avgProcessingTime\<close> is a quotient.\<close>

record FraudStats =
  totalClaims :: nat
  verifiedClaims :: nat
  potentialFrauds :: nat
  totalAmount :: int
  avgProcessingTime :: "real option"

section \<open>getFraudStats\<close>

text \<open>
  \<^verbatim>\<open>getFraudStats\<close> (App.tsx, lines 269-286) reads the \<^verbatim>\<open>claims\<close> state and the clock.
  \<open>now\<close> is \<^verbatim>\<open>Date.now()\<close> in milliseconds, one reading for the whole synchronous
  computation.
\<close>

definition getFraudStats :: "nat \<Rightarrow> ClaimRecord list \<Rightarrow> FraudStats" where
  "getFraudStats now claims =
     (let totalClaims = length claims;
          verifiedClaims = length (filter (\<lambda>c. isVerified c) claims);
          potentialFrauds = length (filter (\<lambda>c.
              isVerified c \<and> truthy_num (decryptedValue c) \<and> gt_num (decryptedValue c) 10000)
            claims);
          totalAmount = foldl (\<lambda>sum c. sum + claimAmount c) 0 claims;
          avgProcessingTime =
            (if length claims > 0
             then js_divide
                    (Some (foldl (\<lambda>sum c. sum + (real now / 1000 - real_of_int (timestamp c)))
                             0 claims))
                    (real (length claims))
             else Some 0)
      in \<lparr> totalClaims = totalClaims,
           verifiedClaims = verifiedClaims,
           potentialFrauds = potentialFrauds,
           totalAmount = totalAmount,
           avgProcessingTime = js_divide avgProcessingTime 3600 \<rparr>)"

text \<open>
  The state \<^verbatim>\<open>transactionStatus\<close>: \<^verbatim>\<open>status\<close> and \<^verbatim>\<open>message\<close> are \<open>tx_status\<close> and
  \<open>tx_message\<close> here.
\<close>

datatype phase = pending | success | error

record TransactionStatus =
  visible :: bool
  tx_status :: phase
  tx_message :: string

text \<open>The state \<^verbatim>\<open>newClaimData\<close>: the four strings of the creation form.\<close>

record NewClaimData =
  new_policyNumber :: string
  new_claimAmount :: string
  new_provider :: string
  new_claimDate :: string

text \<open>The result of the \<^verbatim>\<open>encrypt\<close> hook: \<^verbatim>\<open>encryptedData\<close> and \<^verbatim>\<open>proof\<close>.\<close>

record EncryptedResult =
  encryptedData :: string
  inputProof :: string

section \<open>The ledger contract\<close>

text \<open>
  The contract is not part of the sources. App.tsx fixes its interface: the fields read
  from \<^verbatim>\<open>getBusinessData\<close>, the seven arguments of \<^verbatim>\<open>createBusinessData\<close>, the three of
  \<^verbatim>\<open>verifyDecryption\<close>, and the text \<^verbatim>\<open>Data already verified\<close> of its rejection.
\<close>

record BusinessData =
  bd_name :: string
  bd_encryptedValue :: string
  bd_publicValue1 :: int
  bd_publicValue2 :: int
  bd_description :: string
  bd_creator :: string
  bd_timestamp :: nat
  bd_decryptedValue :: int
  bd_isVerified :: bool

text \<open>The ledger's records in creation order, keyed by business id.\<close>

type_synonym Ledger = "(string \<times> BusinessData) list"

text \<open>
  The calls App.tsx makes that leave the client: requests to the encryption gateway and
  transactions submitted to the ledger, with their arguments in source order.
\<close>

datatype call =
    Encrypt string string js_number
  | CreateBusinessData string string string string js_number js_number string
  | RequestDecryption "string list" string
  | VerifyDecryption string int string

fun is_ledger_write :: "call \<Rightarrow> bool" where
  "is_ledger_write (CreateBusinessData _ _ _ _ _ _ _) = True"
| "is_ledger_write (VerifyDecryption _ _ _) = True"
| "is_ledger_write _ = False"

datatype rpc = GetAllBusinessIds | GetBusinessData string | GetEncryptedValue string

text \<open>
  What one operation finds around it: the wallet (\<^verbatim>\<open>useAccount\<close>), whether
  \<^verbatim>\<open>getContractReadOnly\<close> and \<^verbatim>\<open>getContractWithSigner\<close> return a contract or
  \<^verbatim>\<open>null\<close>, the clock, the gateway's answers, and the failures of the network and the
  wallet: \<open>rpcFault\<close> makes a read throw, \<open>txFault\<close> makes the submission of a
  transaction throw (the user declines to sign, the node is unreachable).
\<close>

record Env =
  isConnected :: bool
  address :: "string option"
  readOnlyContract :: bool
  signerContract :: bool
  dateNow :: nat
  blockTime :: nat
  encrypt :: "string \<Rightarrow> string \<Rightarrow> js_number \<Rightarrow> js_error + EncryptedResult"
  publicDecrypt :: "string \<Rightarrow> js_error + int \<times> string"
  checkSignatures :: "string \<Rightarrow> int \<Rightarrow> string \<Rightarrow> bool"
  rpcFault :: "rpc \<Rightarrow> js_error option"
  txFault :: "call \<Rightarrow> js_error option"

text \<open>\<^verbatim>\<open>!address\<close>: an undefined or empty address is falsy.\<close>

definition no_address :: "Env \<Rightarrow> bool" where
  "no_address env = (case address env of None \<Rightarrow> True | Some a \<Rightarrow> a = [])"

definition the_address :: "Env \<Rightarrow> string" where
  "the_address env = (case address env of None \<Rightarrow> [] | Some a \<Rightarrow> a)"

text \<open>
  Modelled from the spec: the contract's read entry points \<^verbatim>\<open>listClaimIds\<close>,
  \<^verbatim>\<open>getClaim\<close> and \<^verbatim>\<open>getEncryptedHandle\<close> (section 6), which are missing from the
  sources. A read of an id the ledger does not hold is rejected.
\<close>

definition getAllBusinessIds :: "Env \<Rightarrow> Ledger \<Rightarrow> js_error + string list" where
  "getAllBusinessIds env L =
     (case rpcFault env GetAllBusinessIds of Some e \<Rightarrow> Inl e | None \<Rightarrow> Inr (map fst L))"

definition getBusinessData :: "Env \<Rightarrow> Ledger \<Rightarrow> string \<Rightarrow> js_error + BusinessData" where
  "getBusinessData env L businessId =
     (case rpcFault env (GetBusinessData businessId) of
        Some e \<Rightarrow> Inl e
      | None \<Rightarrow>
          (case map_of L businessId of
             None \<Rightarrow> Inl (JsError (Some ''Business data does not exist''))
           | Some bd \<Rightarrow> Inr bd))"

definition getEncryptedValue :: "Env \<Rightarrow> Ledger \<Rightarrow> string \<Rightarrow> js_error + string" where
  "getEncryptedValue env L businessId =
     (case rpcFault env (GetEncryptedValue businessId) of
        Some e \<Rightarrow> Inl e
      | None \<Rightarrow>
          (case map_of L businessId of
             None \<Rightarrow> Inl (JsError (Some ''Business data does not exist''))
           | Some bd \<Rightarrow> Inr (bd_encryptedValue bd)))"

section \<open>The state of the App component\<close>

text \<open>
  The React state of \<^verbatim>\<open>App\<close> that the operations read and write, together with the two
  things outside the client they act on: the ledger's storage and the trace of calls.
  The \<^verbatim>\<open>setTimeout\<close> callbacks that hide the status message two or three seconds later
  are display timing and are left out.
\<close>

record State =
  claims :: "ClaimRecord list"
  isRefreshing :: bool
  showCreateModal :: bool
  creatingClaim :: bool
  transactionStatus :: TransactionStatus
  newClaimData :: NewClaimData
  contractAddress :: string
  ledger :: Ledger
  calls :: "call list"

definition set_status :: "phase \<Rightarrow> string \<Rightarrow> State \<Rightarrow> State" where
  "set_status ph m s =
     s\<lparr>transactionStatus := \<lparr> visible = True, tx_status = ph, tx_message = m \<rparr>\<rparr>"

section \<open>loadClaims\<close>

text \<open>
  The object literal pushed by \<^verbatim>\<open>loadClaims\<close> (App.tsx, lines 117-129); the only
  expression in it that can throw is \<^verbatim>\<open>toISOString\<close>. The time value
  \<^verbatim>\<open>Number(timestamp) * 1000\<close> is taken exactly: a product up to \<open>8.64 * 10^15\<close> is
  below \<open>2^53\<close> and exact, and beyond it the rounded product is out of the range of
  \<^verbatim>\<open>Date\<close> as well, so that \<^verbatim>\<open>toISOString\<close> throws either way.
\<close>

definition claim_of :: "string \<Rightarrow> BusinessData \<Rightarrow> js_error + ClaimRecord" where
  "claim_of businessId businessData =
     (case toISOString (bd_timestamp businessData * 1000) of
        Inl e \<Rightarrow> Inl e
      | Inr isoString \<Rightarrow>
          Inr \<lparr> claimId = businessId,
                policyNumber = bd_name businessData,
                claimAmount = orZero (Some (js_Number (bd_publicValue1 businessData))),
                claimDate = split_T_0 isoString,
                provider = bd_description businessData,
                status = (if bd_isVerified businessData then ''Verified'' else ''Pending''),
                encryptedAmount = businessId,
                isVerified = bd_isVerified businessData,
                decryptedValue = Some (orZero (Some (js_Number (bd_decryptedValue businessData)))),
                timestamp = js_Number (int (bd_timestamp businessData)),
                creator = bd_creator businessData \<rparr>)"

text \<open>
  The \<^verbatim>\<open>for\<close> loop with its inner \<^verbatim>\<open>try\<close>/\<^verbatim>\<open>catch\<close>: an id whose read or conversion
  throws is logged and skipped. The ledger is read as one snapshot.
\<close>

fun loadClaims_loop :: "Env \<Rightarrow> Ledger \<Rightarrow> string list \<Rightarrow> ClaimRecord list \<Rightarrow> ClaimRecord list" where
  "loadClaims_loop env L [] claimsList = claimsList"
| "loadClaims_loop env L (businessId # rest) claimsList =
     (case getBusinessData env L businessId of
        Inl e \<Rightarrow> loadClaims_loop env L rest claimsList
      | Inr businessData \<Rightarrow>
          (case claim_of businessId businessData of
             Inl e \<Rightarrow> loadClaims_loop env L rest claimsList
           | Inr c \<Rightarrow> loadClaims_loop env L rest (claimsList @ [c])))"

definition loadClaims :: "Env \<Rightarrow> State \<Rightarrow> State" where
  "loadClaims env s =
     (if \<not> isConnected env then s
      else
        let s1 = s\<lparr>isRefreshing := True\<rparr>;
            s2 = (if \<not> readOnlyContract env then s1
                  else
                    (case getAllBusinessIds env (ledger s1) of
                       Inl e \<Rightarrow> set_status error ''Failed to load claims'' s1
                     | Inr businessIds \<Rightarrow>
                         s1\<lparr>claims := loadClaims_loop env (ledger s1) businessIds []\<rparr>))
        in s2\<lparr>isRefreshing := False\<rparr>)"

section \<open>Transactions\<close>

text \<open>
  A method call on the signer contract submits a transaction: the call is recorded, and
  the wallet or the node may refuse it.
\<close>

definition send_tx :: "Env \<Rightarrow> call \<Rightarrow> State \<Rightarrow> js_error option \<times> State" where
  "send_tx env tx s = (txFault env tx, s\<lparr>calls := calls s @ [tx]\<rparr>)"

text \<open>
  Modelled from the spec: the contract's \<^verbatim>\<open>submitClaim\<close> (section 6), missing from the
  sources. It stores a new record with \<open>isVerified = false\<close>, the ledger's timestamp and
  the sender as creator; ids are unique on the ledger (section 3), so a second record
  under an id is rejected; the public amount is an integer (section 3), so a number
  that is not one is rejected.
\<close>

definition contract_createBusinessData ::
  "Env \<Rightarrow> Ledger \<Rightarrow> string \<Rightarrow> string \<Rightarrow> string \<Rightarrow> string \<Rightarrow> js_number \<Rightarrow> js_number
     \<Rightarrow> string \<Rightarrow> js_error + Ledger" where
  "contract_createBusinessData env L businessId name enc prf publicValue1 publicValue2 descr =
     (case (publicValue1, publicValue2) of
        (Finite v1, Finite v2) \<Rightarrow>
          if map_of L businessId \<noteq> None
          then Inl (JsError (Some ''Business data already exists''))
          else Inr (L @ [(businessId,
                 \<lparr> bd_name = name,
                   bd_encryptedValue = enc,
                   bd_publicValue1 = v1,
                   bd_publicValue2 = v2,
                   bd_description = descr,
                   bd_creator = the_address env,
                   bd_timestamp = blockTime env,
                   bd_decryptedValue = 0,
                   bd_isVerified = False \<rparr>)])
      | _ \<Rightarrow> Inl (JsError (Some ''invalid integer value'')))"

text \<open>
  Modelled from the spec: the contract's \<^verbatim>\<open>submitVerification\<close> (section 6), missing from
  the sources: \<^verbatim>\<open>ack | AlreadyVerified | ProofRejected\<close>. An accepted proof flips
  \<open>isVerified\<close> and records the clear value. The rejection of a verified record carries
  the text that \<^verbatim>\<open>decryptClaim\<close> looks for.
\<close>

definition store_verified :: "string \<Rightarrow> int \<Rightarrow> Ledger \<Rightarrow> Ledger" where
  "store_verified businessId clearValue L =
     map (\<lambda>(k, bd). if k = businessId
            then (k, bd\<lparr>bd_decryptedValue := clearValue, bd_isVerified := True\<rparr>)
            else (k, bd)) L"

definition contract_verifyDecryption ::
  "Env \<Rightarrow> Ledger \<Rightarrow> string \<Rightarrow> int \<Rightarrow> string \<Rightarrow> js_error + Ledger" where
  "contract_verifyDecryption env L businessId clearValue decryptionProof =
     (case map_of L businessId of
        None \<Rightarrow> Inl (JsError (Some ''Business data does not exist''))
      | Some bd \<Rightarrow>
          if bd_isVerified bd then Inl (JsError (Some ''Data already verified''))
          else if \<not> checkSignatures env (bd_encryptedValue bd) clearValue decryptionProof
          then Inl (JsError (Some ''Invalid decryption proof''))
          else Inr (store_verified businessId clearValue L))"

section \<open>createClaim\<close>

text \<open>The id that \<^verbatim>\<open>createClaim\<close> assigns: \<^verbatim>\<open>`claim-${Date.now()}`\<close> (line 159).\<close>

definition businessId_of :: "Env \<Rightarrow> string" where
  "businessId_of env = ''claim-'' @ show_nat (dateNow env)"

text \<open>
  The \<^verbatim>\<open>try\<close> block of \<^verbatim>\<open>createClaim\<close> (lines 154-183). The result is the exception
  thrown, if any, with the state reached at that point.
\<close>

definition createClaim_try :: "Env \<Rightarrow> State \<Rightarrow> js_error option \<times> State" where
  "createClaim_try env s =
     (if \<not> signerContract env
      then (Some (JsError (Some ''Failed to get contract with signer'')), s)
      else
        let claimAmount = number_or_zero (parseInt (new_claimAmount (newClaimData s)));
            businessId = businessId_of env;
            s1 = s\<lparr>calls := calls s @ [Encrypt (contractAddress s) (the_address env) claimAmount]\<rparr>
        in case encrypt env (contractAddress s) (the_address env) claimAmount of
             Inl e \<Rightarrow> (Some e, s1)
           | Inr encryptedResult \<Rightarrow>
               (case send_tx env
                       (CreateBusinessData businessId
                          (new_policyNumber (newClaimData s))
                          (encryptedData encryptedResult)
                          (inputProof encryptedResult)
                          claimAmount
                          (Finite 0)
                          (new_provider (newClaimData s))) s1 of
                  (Some e, s2) \<Rightarrow> (Some e, s2)
                | (None, s2) \<Rightarrow>
                    let s3 = set_status pending ''Waiting for transaction confirmation...'' s2
                    in case contract_createBusinessData env (ledger s3) businessId
                              (new_policyNumber (newClaimData s))
                              (encryptedData encryptedResult)
                              (inputProof encryptedResult)
                              claimAmount
                              (Finite 0)
                              (new_provider (newClaimData s)) of
                         Inl e \<Rightarrow> (Some e, s3)
                       | Inr L' \<Rightarrow>
                           let s4 = set_status success ''Claim record created successfully!''
                                      (s3\<lparr>ledger := L'\<rparr>);
                               s5 = loadClaims env s4
                           in (None, s5\<lparr>showCreateModal := False,
                                       newClaimData := \<lparr> new_policyNumber = [],
                                                        new_claimAmount = [],
                                                        new_provider = [],
                                                        new_claimDate = [] \<rparr>\<rparr>)))"

text \<open>
  The \<^verbatim>\<open>catch\<close> block of \<^verbatim>\<open>createClaim\<close> (lines 184-189). Its first expression can
  throw; then the handler is left with the status as it was.
\<close>

definition createClaim_catch :: "js_error \<Rightarrow> State \<Rightarrow> js_error option \<times> State" where
  "createClaim_catch e s =
     (case message_includes e ''user rejected transaction'' of
        Inl thrown \<Rightarrow> (Some thrown, s)
      | Inr rejected \<Rightarrow>
          let errorMessage =
                (if rejected then ''Transaction rejected by user''
                 else ''Submission failed: '' @ message_or_unknown e)
          in (None, set_status error errorMessage s))"

text \<open>
  \<^verbatim>\<open>createClaim\<close> (lines 144-193): the state it leaves, and the exception its promise
  rejects with, if any. The \<^verbatim>\<open>finally\<close> block runs in every case.
\<close>

definition createClaim_outcome :: "Env \<Rightarrow> State \<Rightarrow> js_error option \<times> State" where
  "createClaim_outcome env s =
     (if \<not> isConnected env \<or> no_address env
      then (None, set_status error ''Please connect wallet first'' s)
      else
        let s1 = set_status pending ''Creating encrypted claim record...''
                   (s\<lparr>creatingClaim := True\<rparr>);
            (thrown, s2) = (case createClaim_try env s1 of
                              (None, s') \<Rightarrow> (None, s')
                            | (Some e, s') \<Rightarrow> createClaim_catch e s')
        in (thrown, s2\<lparr>creatingClaim := False\<rparr>))"

definition createClaim :: "Env \<Rightarrow> State \<Rightarrow> State" where
  "createClaim env s = snd (createClaim_outcome env s)"

section \<open>decryptClaim\<close>

text \<open>
  Modelled from the spec: the \<^verbatim>\<open>verifyDecryption\<close> hook of the SDK
  (\<^verbatim>\<open>requestDecryptionProof\<close>, section 6), missing from the sources. It is stateless per
  call (section 2): it asks the gateway for the clear value and the proof of the
  handle, hands both to the callback, which submits them to the ledger, and returns
  the clear value. App.tsx calls it with the one handle of the claim and reads the
  result at that handle.
\<close>

definition verifyDecryption ::
  "Env \<Rightarrow> string \<Rightarrow> string \<Rightarrow> (int \<Rightarrow> string \<Rightarrow> State \<Rightarrow> js_error option \<times> State) \<Rightarrow> State
     \<Rightarrow> (js_error + int) \<times> State" where
  "verifyDecryption env handle contractAddr callback s =
     (let s1 = s\<lparr>calls := calls s @ [RequestDecryption [handle] contractAddr]\<rparr>
      in case publicDecrypt env handle of
           Inl e \<Rightarrow> (Inl e, s1)
         | Inr (clearValue, decryptionProof) \<Rightarrow>
             (case callback clearValue decryptionProof s1 of
                (Some e, s2) \<Rightarrow> (Inl e, s2)
              | (None, s2) \<Rightarrow> (Inr clearValue, s2)))"

text \<open>
  The callback of line 222: \<^verbatim>\<open>contractWrite.verifyDecryption(businessId, ...)\<close>, the
  transaction and the contract's verdict on it.
\<close>

definition contractWrite_verifyDecryption ::
  "Env \<Rightarrow> string \<Rightarrow> int \<Rightarrow> string \<Rightarrow> State \<Rightarrow> js_error option \<times> State" where
  "contractWrite_verifyDecryption env businessId abiEncodedClearValues decryptionProof s =
     (case send_tx env (VerifyDecryption businessId abiEncodedClearValues decryptionProof) s of
        (Some e, s1) \<Rightarrow> (Some e, s1)
      | (None, s1) \<Rightarrow>
          (case contract_verifyDecryption env (ledger s1) businessId
                  abiEncodedClearValues decryptionProof of
             Inl e \<Rightarrow> (Some e, s1)
           | Inr L' \<Rightarrow> (None, s1\<lparr>ledger := L'\<rparr>)))"

text \<open>
  The \<^verbatim>\<open>try\<close> block of \<^verbatim>\<open>decryptClaim\<close> (lines 202-235): the value returned
  (\<open>None\<close> is \<^verbatim>\<open>null\<close>) or the exception thrown, with the state reached.
\<close>

definition decryptClaim_try :: "Env \<Rightarrow> string \<Rightarrow> State \<Rightarrow> (js_error + int option) \<times> State" where
  "decryptClaim_try env businessId s =
     (if \<not> readOnlyContract env then (Inr None, s)
      else
        case getBusinessData env (ledger s) businessId of
          Inl e \<Rightarrow> (Inl e, s)
        | Inr businessData \<Rightarrow>
            if bd_isVerified businessData then
              let storedValue = orZero (Some (js_Number (bd_decryptedValue businessData)))
              in (Inr (Some storedValue),
                  set_status success ''Data already verified on-chain'' s)
            else if \<not> signerContract env then (Inr None, s)
            else
              case getEncryptedValue env (ledger s) businessId of
                Inl e \<Rightarrow> (Inl e, s)
              | Inr encryptedValueHandle \<Rightarrow>
                  (case verifyDecryption env encryptedValueHandle (contractAddress s)
                          (contractWrite_verifyDecryption env businessId) s of
                     (Inl e, s1) \<Rightarrow> (Inl e, s1)
                   | (Inr clearValue, s1) \<Rightarrow>
                       let s2 = set_status pending ''Verifying decryption on-chain...'' s1;
                           s3 = loadClaims env s2;
                           s4 = set_status success ''Claim amount decrypted and verified!'' s3
                       in (Inr (Some (js_Number clearValue)), s4)))"

text \<open>
  The \<^verbatim>\<open>catch\<close> block (lines 237-248). Its first expression can throw; nothing
  catches that, and the promise of \<^verbatim>\<open>decryptClaim\<close> rejects.
\<close>

definition decryptClaim_catch ::
  "Env \<Rightarrow> js_error \<Rightarrow> State \<Rightarrow> (js_error + int option) \<times> State" where
  "decryptClaim_catch env e s =
     (case message_includes e ''Data already verified'' of
        Inl thrown \<Rightarrow> (Inl thrown, s)
      | Inr verified \<Rightarrow>
          if verified
          then (Inr None,
                loadClaims env (set_status success ''Data is already verified on-chain'' s))
          else (Inr None,
                set_status error (''Decryption failed: '' @ message_or_unknown e) s))"

text \<open>
  \<^verbatim>\<open>decryptClaim\<close> (lines 195-249): what its promise resolves with (\<open>Inr\<close>; \<open>None\<close> is
  \<^verbatim>\<open>null\<close>) or rejects with (\<open>Inl\<close>), and the state it leaves.
\<close>

definition decryptClaim :: "Env \<Rightarrow> string \<Rightarrow> State \<Rightarrow> (js_error + int option) \<times> State" where
  "decryptClaim env businessId s =
     (if \<not> isConnected env \<or> no_address env
      then (Inr None, set_status error ''Please connect wallet first'' s)
      else
        case decryptClaim_try env businessId s of
          (Inr r, s') \<Rightarrow> (Inr r, s')
        | (Inl e, s') \<Rightarrow> decryptClaim_catch env e s')"

section \<open>decryptClaim, one await at a time\<close>

text \<open>
  The host runs one operation at a time between suspension points (the \<^verbatim>\<open>await\<close>s),
  and may run other operations while one is suspended. A \<open>task\<close> is the \<^verbatim>\<open>await\<close> at
  which a call of \<^verbatim>\<open>decryptClaim\<close> is suspended, with the local variables it needs
  later; \<open>Called\<close> is a call that has not run yet, \<open>Returned\<close> one that has resolved
  and \<open>Rejected\<close> one whose promise has rejected.
  One step performs the awaited interaction on the world as it is then, and the
  synchronous code after it up to the next \<^verbatim>\<open>await\<close>. The awaits of
  \<^verbatim>\<open>getContractReadOnly\<close> and \<^verbatim>\<open>getContractWithSigner\<close> touch nothing shared and belong
  to the step before them; the hook's two interactions (the gateway, then the
  callback's transaction) are two steps; \<^verbatim>\<open>loadClaims\<close> is one step.
\<close>

datatype task =
    Called
  | AwaitBusinessData
  | AwaitEncryptedValue
  | AwaitPublicDecrypt string string
  | AwaitSubmit int string
  | AwaitRefresh int
  | AwaitRefreshInCatch
  | Returned "int option"
  | Rejected js_error

text \<open>The \<^verbatim>\<open>catch\<close> block up to its \<^verbatim>\<open>await loadClaims()\<close>.\<close>

definition decrypt_catch_step :: "Env \<Rightarrow> js_error \<Rightarrow> State \<Rightarrow> task \<times> State" where
  "decrypt_catch_step env e s =
     (case message_includes e ''Data already verified'' of
        Inl thrown \<Rightarrow> (Rejected thrown, s)
      | Inr verified \<Rightarrow>
          if verified
          then (AwaitRefreshInCatch,
                set_status success ''Data is already verified on-chain'' s)
          else (Returned None,
                set_status error (''Decryption failed: '' @ message_or_unknown e) s))"

fun decrypt_step :: "Env \<Rightarrow> string \<Rightarrow> task \<Rightarrow> State \<Rightarrow> task \<times> State" where
  "decrypt_step env businessId Called s =
     (if \<not> isConnected env \<or> no_address env
      then (Returned None, set_status error ''Please connect wallet first'' s)
      else if \<not> readOnlyContract env then (Returned None, s)
      else (AwaitBusinessData, s))"
| "decrypt_step env businessId AwaitBusinessData s =
     (case getBusinessData env (ledger s) businessId of
        Inl e \<Rightarrow> decrypt_catch_step env e s
      | Inr businessData \<Rightarrow>
          if bd_isVerified businessData
          then (Returned (Some (orZero (Some (js_Number (bd_decryptedValue businessData))))),
                set_status success ''Data already verified on-chain'' s)
          else if \<not> signerContract env then (Returned None, s)
          else (AwaitEncryptedValue, s))"
| "decrypt_step env businessId AwaitEncryptedValue s =
     (case getEncryptedValue env (ledger s) businessId of
        Inl e \<Rightarrow> decrypt_catch_step env e s
      | Inr encryptedValueHandle \<Rightarrow>
          (AwaitPublicDecrypt encryptedValueHandle (contractAddress s), s))"
| "decrypt_step env businessId (AwaitPublicDecrypt handle contractAddr) s =
     (let s1 = s\<lparr>calls := calls s @ [RequestDecryption [handle] contractAddr]\<rparr>
      in case publicDecrypt env handle of
           Inl e \<Rightarrow> decrypt_catch_step env e s1
         | Inr (clearValue, decryptionProof) \<Rightarrow> (AwaitSubmit clearValue decryptionProof, s1))"
| "decrypt_step env businessId (AwaitSubmit clearValue decryptionProof) s =
     (case contractWrite_verifyDecryption env businessId clearValue decryptionProof s of
        (Some e, s1) \<Rightarrow> decrypt_catch_step env e s1
      | (None, s1) \<Rightarrow>
          (AwaitRefresh clearValue, set_status pending ''Verifying decryption on-chain...'' s1))"
| "decrypt_step env businessId (AwaitRefresh clearValue) s =
     (Returned (Some (js_Number clearValue)),
      set_status success ''Claim amount decrypted and verified!'' (loadClaims env s))"
| "decrypt_step env businessId AwaitRefreshInCatch s = (Returned None, loadClaims env s)"
| "decrypt_step env businessId (Returned r) s = (Returned r, s)"
| "decrypt_step env businessId (Rejected e) s = (Rejected e, s)"

text \<open>A call running alone for \<open>n\<close> steps.\<close>

fun run_steps :: "nat \<Rightarrow> Env \<Rightarrow> string \<Rightarrow> task \<times> State \<Rightarrow> task \<times> State" where
  "run_steps 0 env businessId ts = ts"
| "run_steps (Suc n) env businessId (t, s) = run_steps n env businessId (decrypt_step env businessId t s)"

text \<open>
  Two calls \<open>A\<close> and \<open>B\<close> for the same id in the same component, interleaved by a
  schedule that names the call to resume next.
\<close>

datatype caller = A | B

fun interleave :: "Env \<Rightarrow> string \<Rightarrow> caller list \<Rightarrow> task \<times> task \<times> State \<Rightarrow> task \<times> task \<times> State" where
  "interleave env businessId [] cfg = cfg"
| "interleave env businessId (A # sched) (tA, tB, s) =
     (case decrypt_step env businessId tA s of
        (tA', s') \<Rightarrow> interleave env businessId sched (tA', tB, s'))"
| "interleave env businessId (B # sched) (tA, tB, s) =
     (case decrypt_step env businessId tB s of
        (tB', s') \<Rightarrow> interleave env businessId sched (tA, tB', s'))"

text \<open>The number of \<^verbatim>\<open>verifyDecryption\<close> transactions submitted for an id.\<close>

fun is_verification_of :: "string \<Rightarrow> call \<Rightarrow> bool" where
  "is_verification_of businessId (VerifyDecryption b _ _) = (b = businessId)"
| "is_verification_of businessId _ = False"

definition submissions :: "string \<Rightarrow> State \<Rightarrow> nat" where
  "submissions businessId s = length (filter (is_verification_of businessId) (calls s))"

text \<open>The ledger holds the id with \<open>isVerified = true\<close>.\<close>

definition ledger_verified :: "Ledger \<Rightarrow> string \<Rightarrow> bool" where
  "ledger_verified L businessId =
     (case map_of L businessId of None \<Rightarrow> False | Some bd \<Rightarrow> bd_isVerified bd)"

text \<open>
  How many transactions a call suspended at a task can still submit: one until its
  transaction is out, none afterwards, and none for a call whose first read of the
  ledger is still to come when the ledger already shows the claim verified.
\<close>

fun may_submit :: "Ledger \<Rightarrow> string \<Rightarrow> task \<Rightarrow> nat" where
  "may_submit L businessId Called = (if ledger_verified L businessId then 0 else 1)"
| "may_submit L businessId AwaitBusinessData = (if ledger_verified L businessId then 0 else 1)"
| "may_submit L businessId AwaitEncryptedValue = 1"
| "may_submit L businessId (AwaitPublicDecrypt _ _) = 1"
| "may_submit L businessId (AwaitSubmit _ _) = 1"
| "may_submit L businessId (AwaitRefresh _) = 0"
| "may_submit L businessId AwaitRefreshInCatch = 0"
| "may_submit L businessId (Returned _) = 0"
| "may_submit L businessId (Rejected _) = 0"

section \<open>Concrete inputs\<close>

text \<open>
  A connected client with a working gateway and ledger, a second caller with the same
  clock reading, a gateway whose encryption fails with an \<^verbatim>\<open>Error\<close>, one whose
  encryption rejects with \<^verbatim>\<open>undefined\<close>, a client without a wallet, and ledger
  records of one claim: before verification, after it, and verified with a value
  above \<open>2^53\<close>.
\<close>

definition example_env :: Env where
  "example_env =
     \<lparr> isConnected = True, address = Some ''0xA1'', readOnlyContract = True,
       signerContract = True, dateNow = 1700000000000, blockTime = 1700000000,
       encrypt = (\<lambda>c a v. Inr \<lparr> encryptedData = ''0xhandle'', inputProof = ''0xproof'' \<rparr>),
       publicDecrypt = (\<lambda>h. Inr (15000, ''0xsig'')),
       checkSignatures = (\<lambda>h v p. True),
       rpcFault = (\<lambda>r. None), txFault = (\<lambda>c. None) \<rparr>"

definition example_env_B :: Env where
  "example_env_B = example_env\<lparr>address := Some ''0xB2''\<rparr>"

definition example_env_no_gateway :: Env where
  "example_env_no_gateway =
     example_env\<lparr>encrypt := (\<lambda>c a v. Inl (JsError (Some ''Encryption failed'')))\<rparr>"

definition example_env_nullish :: Env where
  "example_env_nullish = example_env\<lparr>encrypt := (\<lambda>c a v. Inl Nullish)\<rparr>"

definition example_env_disconnected :: Env where
  "example_env_disconnected = example_env\<lparr>isConnected := False, address := None\<rparr>"

definition example_bd :: BusinessData where
  "example_bd =
     \<lparr> bd_name = ''POL-1'', bd_encryptedValue = ''0xhandle'', bd_publicValue1 = 15000,
       bd_publicValue2 = 0, bd_description = ''Acme'', bd_creator = ''0xA1'',
       bd_timestamp = 1700000000, bd_decryptedValue = 0, bd_isVerified = False \<rparr>"

definition example_bd_verified :: BusinessData where
  "example_bd_verified = example_bd\<lparr>bd_decryptedValue := 15000, bd_isVerified := True\<rparr>"

definition example_bd_big :: BusinessData where
  "example_bd_big =
     example_bd\<lparr>bd_decryptedValue := 9007199254740993, bd_isVerified := True\<rparr>"

text \<open>The component's state with the creation form filled in, over a given ledger.\<close>

definition example_state :: "Ledger \<Rightarrow> State" where
  "example_state L =
     \<lparr> claims = [], isRefreshing = False, showCreateModal = True, creatingClaim = False,
       transactionStatus = \<lparr> visible = False, tx_status = pending, tx_message = [] \<rparr>,
       newClaimData = \<lparr> new_policyNumber = ''POL-1'', new_claimAmount = ''15000'',
                         new_provider = ''Acme'', new_claimDate = ''2020-01-01'' \<rparr>,
       contractAddress = ''0xC0'', ledger = L, calls = [] \<rparr>"

text \<open>The form with another claim date, or another amount text.\<close>

definition with_claimDate :: "string \<Rightarrow> State \<Rightarrow> State" where
  "with_claimDate d s = s\<lparr>newClaimData := (newClaimData s)\<lparr>new_claimDate := d\<rparr>\<rparr>"

definition with_claimAmount :: "string \<Rightarrow> State \<Rightarrow> State" where
  "with_claimAmount a s = s\<lparr>newClaimData := (newClaimData s)\<lparr>new_claimAmount := a\<rparr>\<rparr>"

text \<open>What the promise of \<^verbatim>\<open>createClaim\<close> rejects with, if it does.\<close>

definition createClaim_rejection :: "Env \<Rightarrow> State \<Rightarrow> js_error option" where
  "createClaim_rejection env s = fst (createClaim_outcome env s)"

text \<open>The ids of the claims submitted in a trace of calls.\<close>

fun created_ids :: "call list \<Rightarrow> string list" where
  "created_ids [] = []"
| "created_ids (CreateBusinessData businessId _ _ _ _ _ _ # cs) = businessId # created_ids cs"
| "created_ids (_ # cs) = created_ids cs"

section \<open>Properties of getFraudStats\<close>

text \<open>
  Claim C6. For every snapshot of the claims, \<open>potentialFrauds\<close> is the number of claims
  that are verified and whose decrypted value is greater than the fixed threshold 10000
  (a claim without a decrypted value does not count).
\<close>

theorem potentialFrauds_counts_verified_above_threshold:
  "potentialFrauds (getFraudStats now cs) =
     length (filter (\<lambda>c. isVerified c \<and>
        (case decryptedValue c of None \<Rightarrow> False | Some v \<Rightarrow> v > 10000)) cs)"
proof -
  have eq: "\<And>c. (isVerified c \<and> truthy_num (decryptedValue c) \<and> gt_num (decryptedValue c) 10000)
      = (isVerified c \<and> (case decryptedValue c of None \<Rightarrow> False | Some v \<Rightarrow> v > 10000))"
    by (auto simp: gt_num_def truthy_num_def split: option.splits)
  show ?thesis
    by (simp add: getFraudStats_def Let_def eq)
qed

text \<open>
  Claim C7. On the empty claim set \<open>getFraudStats\<close> returns \<open>totalClaims = 0\<close> and an
  average processing time of exactly 0; and on every claim set the average is a finite
  number, that is, no quotient of the computation has a zero divisor.
\<close>

theorem getFraudStats_empty_no_division_by_zero:
  "totalClaims (getFraudStats now []) = 0 \<and>
   avgProcessingTime (getFraudStats now []) = Some 0 \<and>
   avgProcessingTime (getFraudStats now cs) \<noteq> None"
  by (simp add: getFraudStats_def Let_def js_divide_def)

section \<open>Evaluation of the concrete inputs\<close>

lemma replicate_numeral_Cons: "replicate (numeral k) x = x # replicate (pred_numeral k) x"
  by (simp add: numeral_eq_Suc)

lemma toISOString_example: "toISOString 1700000000000 = Inr ''2023-11-14T22:13:20.000Z''"
  unfolding toISOString_def civil_from_days_def Let_def pad_nat_def
  by (simp add: show_nat.simps digit_char_def replicate_numeral_Cons)

lemma bit_length_le: "n < 2 ^ k \<Longrightarrow> bit_length n \<le> k"
proof (induction k arbitrary: n)
  case 0
  then show ?case by (simp add: bit_length.simps)
next
  case (Suc k)
  show ?case
  proof (cases "n = 0")
    case True
    then show ?thesis by (simp add: bit_length.simps)
  next
    case False
    from Suc.prems have "n div 2 < 2 ^ k" by simp
    from Suc.IH [OF this] False show ?thesis
      by (subst bit_length.simps) simp
  qed
qed

lemma round53_exact: "\<bar>n\<bar> \<le> 9007199254740992 \<Longrightarrow> round53 n = n"
  by (auto simp: round53_def Let_def)

lemma js_Number_exact: "\<bar>x\<bar> \<le> 9007199254740992 \<Longrightarrow> js_Number x = x"
  by (simp add: js_Number_def round53_exact)

lemma to_double_exact:
  assumes "\<bar>n\<bar> \<le> 9007199254740992"
  shows "to_double n = Finite n"
proof -
  from assms have "nat \<bar>n\<bar> < 2 ^ 54" by simp
  from bit_length_le [OF this] have "bit_length (nat \<bar>n\<bar>) \<le> 1024" by simp
  with assms show ?thesis
    by (simp add: to_double_def round53_exact)
qed

lemma js_Number_above_2_53: "js_Number 9007199254740993 = 9007199254740992"
  unfolding js_Number_def round53_def Let_def
  by (simp add: bit_length.simps)

lemma parseInt_15000: "parseInt ''15000'' = Finite 15000"
  unfolding parseInt_def Let_def
  by (simp add: isWhiteSpace_def radix_digit_def digit_value_def to_double_exact)

lemma parseInt_abc: "parseInt ''abc'' = NaN"
  unfolding parseInt_def Let_def
  by (simp add: isWhiteSpace_def radix_digit_def digit_value_def)

lemma parseInt_empty: "parseInt [] = NaN"
  unfolding parseInt_def Let_def
  by (simp add: isWhiteSpace_def radix_digit_def digit_value_def)

lemma parseInt_nbsp_42: "parseInt (CHR 0xA0 # ''42'') = Finite 42"
  unfolding parseInt_def Let_def
  by (simp add: isWhiteSpace_def radix_digit_def digit_value_def to_double_exact)

lemma example_env_fields:
  "isConnected example_env" "address example_env = Some ''0xA1''"
  "readOnlyContract example_env" "signerContract example_env"
  "dateNow example_env = 1700000000000" "blockTime example_env = 1700000000"
  "encrypt example_env c a v = Inr \<lparr> encryptedData = ''0xhandle'', inputProof = ''0xproof'' \<rparr>"
  "publicDecrypt example_env h = Inr (15000, ''0xsig'')"
  "checkSignatures example_env h x p"
  "rpcFault example_env r = None" "txFault example_env tx = None"
  by (simp_all add: example_env_def)

lemma example_env_address: "\<not> no_address example_env" "the_address example_env = ''0xA1''"
  by (simp_all add: no_address_def the_address_def example_env_def)

lemma example_env_B_fields:
  "isConnected example_env_B" "\<not> no_address example_env_B" "signerContract example_env_B"
  "the_address example_env_B = ''0xB2''" "dateNow example_env_B = 1700000000000"
  "encrypt example_env_B c a v = Inr \<lparr> encryptedData = ''0xhandle'', inputProof = ''0xproof'' \<rparr>"
  by (simp_all add: example_env_B_def example_env_def no_address_def the_address_def)

lemma example_env_no_gateway_fields:
  "isConnected example_env_no_gateway" "\<not> no_address example_env_no_gateway"
  "signerContract example_env_no_gateway" "the_address example_env_no_gateway = ''0xA1''"
  "encrypt example_env_no_gateway c a v = Inl (JsError (Some ''Encryption failed''))"
  by (simp_all add: example_env_no_gateway_def example_env_def no_address_def the_address_def)

lemma example_env_nullish_fields:
  "isConnected example_env_nullish" "\<not> no_address example_env_nullish"
  "signerContract example_env_nullish" "the_address example_env_nullish = ''0xA1''"
  "encrypt example_env_nullish c a v = Inl Nullish"
  by (simp_all add: example_env_nullish_def example_env_def no_address_def the_address_def)

lemma example_env_disconnected_fields: "\<not> isConnected example_env_disconnected"
  by (simp add: example_env_disconnected_def)

lemma businessId_example: "businessId_of example_env = ''claim-1700000000000''"
  by (simp add: businessId_of_def example_env_def show_nat.simps digit_char_def)

lemma businessId_example_B: "businessId_of example_env_B = ''claim-1700000000000''"
  by (simp add: businessId_of_def example_env_B_fields show_nat.simps digit_char_def)

lemma claim_of_example:
  "claim_of ''claim-1'' example_bd =
     Inr \<lparr> claimId = ''claim-1'', policyNumber = ''POL-1'', claimAmount = 15000,
           claimDate = ''2023-11-14'', provider = ''Acme'', status = ''Pending'',
           encryptedAmount = ''claim-1'', isVerified = False, decryptedValue = Some 0,
           timestamp = 1700000000, creator = ''0xA1'' \<rparr>"
  by (simp add: claim_of_def example_bd_def toISOString_example split_T_0_def orZero_def
      js_Number_exact)

lemma loadClaims_example:
  "claims (loadClaims example_env (example_state [(''claim-1'', example_bd)])) =
     [\<lparr> claimId = ''claim-1'', policyNumber = ''POL-1'', claimAmount = 15000,
         claimDate = ''2023-11-14'', provider = ''Acme'', status = ''Pending'',
         encryptedAmount = ''claim-1'', isVerified = False, decryptedValue = Some 0,
         timestamp = 1700000000, creator = ''0xA1'' \<rparr>]"
  by (simp add: loadClaims_def example_env_fields example_state_def getAllBusinessIds_def
      getBusinessData_def claim_of_example Let_def)

lemma createClaim_example:
  "createClaim example_env (example_state []) =
     \<lparr> claims = [\<lparr> claimId = ''claim-1700000000000'', policyNumber = ''POL-1'',
                   claimAmount = 15000, claimDate = ''2023-11-14'', provider = ''Acme'',
                   status = ''Pending'', encryptedAmount = ''claim-1700000000000'',
                   isVerified = False, decryptedValue = Some 0,
                   timestamp = 1700000000, creator = ''0xA1'' \<rparr>],
       isRefreshing = False, showCreateModal = False, creatingClaim = False,
       transactionStatus = \<lparr> visible = True, tx_status = success,
                             tx_message = ''Claim record created successfully!'' \<rparr>,
       newClaimData = \<lparr> new_policyNumber = [], new_claimAmount = [],
                        new_provider = [], new_claimDate = [] \<rparr>,
       contractAddress = ''0xC0'',
       ledger = [(''claim-1700000000000'', example_bd)],
       calls = [Encrypt ''0xC0'' ''0xA1'' (Finite 15000),
                CreateBusinessData ''claim-1700000000000'' ''POL-1'' ''0xhandle'' ''0xproof''
                  (Finite 15000) (Finite 0) ''Acme''] \<rparr>"
  by (simp add: createClaim_def createClaim_outcome_def createClaim_try_def businessId_example
      parseInt_15000 number_or_zero_def
      send_tx_def contract_createBusinessData_def loadClaims_def getAllBusinessIds_def
      getBusinessData_def claim_of_def toISOString_example split_T_0_def
      set_status_def orZero_def js_Number_exact example_env_address
      example_env_fields example_state_def example_bd_def Let_def)

section \<open>Properties of loadClaims\<close>

lemma loadClaims_calls [simp]: "calls (loadClaims env s) = calls s"
  by (simp add: loadClaims_def set_status_def Let_def split: sum.splits)

lemma loadClaims_ledger [simp]: "ledger (loadClaims env s) = ledger s"
  by (simp add: loadClaims_def set_status_def Let_def split: sum.splits)

lemma loadClaims_claims_cong:
  "claims s = claims t \<Longrightarrow> ledger s = ledger t \<Longrightarrow>
   claims (loadClaims env s) = claims (loadClaims env t)"
  by (simp add: loadClaims_def set_status_def Let_def split: sum.splits)

lemma claim_of_defined: "claim_of businessId bd = Inr c \<Longrightarrow> decryptedValue c \<noteq> None"
  by (auto simp: claim_of_def split: sum.splits)

lemma loadClaims_loop_defined:
  "\<forall>c\<in>set acc. decryptedValue c \<noteq> None \<Longrightarrow>
   \<forall>c\<in>set (loadClaims_loop env L ids acc). decryptedValue c \<noteq> None"
proof (induction ids arbitrary: acc)
  case Nil
  then show ?case by simp
next
  case (Cons businessId rest)
  show ?case
  proof (cases "getBusinessData env L businessId")
    case (Inl e)
    with Cons show ?thesis by simp
  next
    case read: (Inr bd)
    show ?thesis
    proof (cases "claim_of businessId bd")
      case (Inl e)
      with read Cons show ?thesis by simp
    next
      case conv: (Inr c)
      from claim_of_defined [OF conv] Cons.prems
      have "\<forall>c\<in>set (acc @ [c]). decryptedValue c \<noteq> None" by simp
      from Cons.IH [OF this] read conv show ?thesis by simp
    qed
  qed
qed

text \<open>
  Claim C5 as stated fails: after \<open>loadClaims\<close> over a ledger that holds one claim not
  yet verified, the repository holds that claim with \<open>isVerified = False\<close> and the
  decrypted value \<open>Some 0\<close>, which is defined.
\<close>

theorem unverified_claim_has_decryptedValue_counterexample:
  "\<not> (\<forall>c\<in>set (claims (loadClaims example_env (example_state [(''claim-1'', example_bd)]))).
        (decryptedValue c \<noteq> None) = isVerified c)"
  by (simp add: loadClaims_example)

text \<open>
  Claim C5, amended. \<open>loadClaims\<close> stores \<^verbatim>\<open>Number(businessData.decryptedValue) || 0\<close>
  in every claim it builds, so after a refresh the decrypted value of every claim in
  the repository is defined, whether or not the claim is verified (given that it was
  defined on the claims held before, as it is on the initial empty repository).
\<close>

theorem loadClaims_decryptedValue_always_defined:
  assumes "\<forall>c\<in>set (claims s). decryptedValue c \<noteq> None"
  shows "\<forall>c\<in>set (claims (loadClaims env s)). decryptedValue c \<noteq> None"
  using assms loadClaims_loop_defined [of "[]" env "ledger s"]
  by (auto simp: loadClaims_def Let_def set_status_def split: sum.splits)

theorem loadClaims_decryptedValue_witness:
  "claims (example_state [(''claim-1'', example_bd)]) = [] \<and>
   map isVerified (claims (loadClaims example_env (example_state [(''claim-1'', example_bd)])))
     = [False] \<and>
   list_all (\<lambda>c. decryptedValue c \<noteq> None)
     (claims (loadClaims example_env (example_state [(''claim-1'', example_bd)])))"
  using loadClaims_decryptedValue_always_defined
          [of "example_state [(''claim-1'', example_bd)]" example_env]
  by (simp add: list_all_iff loadClaims_example) (simp add: example_state_def)

section \<open>Properties of createClaim\<close>

lemmas createClaim_defs =
  createClaim_def createClaim_outcome_def createClaim_catch_def createClaim_try_def
  send_tx_def set_status_def Let_def

lemma createClaim_calls:
  assumes "isConnected env" and "\<not> no_address env" and "signerContract env"
    and "encrypt env (contractAddress s) (the_address env)
           (number_or_zero (parseInt (new_claimAmount (newClaimData s)))) = Inr er"
  shows "calls (createClaim env s) =
           calls s @ [Encrypt (contractAddress s) (the_address env)
                        (number_or_zero (parseInt (new_claimAmount (newClaimData s)))),
                      CreateBusinessData (businessId_of env) (new_policyNumber (newClaimData s))
                        (encryptedData er) (inputProof er)
                        (number_or_zero (parseInt (new_claimAmount (newClaimData s)))) (Finite 0)
                        (new_provider (newClaimData s))]"
  using assms
  by (simp add: createClaim_defs split: option.splits sum.splits prod.splits bool.splits)

lemma createClaim_ledger:
  assumes "isConnected env" and "\<not> no_address env" and "signerContract env"
    and "encrypt env (contractAddress s) (the_address env)
           (number_or_zero (parseInt (new_claimAmount (newClaimData s)))) = Inr er"
    and "txFault env (CreateBusinessData (businessId_of env) (new_policyNumber (newClaimData s))
                        (encryptedData er) (inputProof er)
                        (number_or_zero (parseInt (new_claimAmount (newClaimData s)))) (Finite 0)
                        (new_provider (newClaimData s))) = None"
    and "map_of (ledger s) (businessId_of env) = None"
    and "number_or_zero (parseInt (new_claimAmount (newClaimData s))) = Finite v"
  shows "ledger (createClaim env s) =
           ledger s @ [(businessId_of env,
             \<lparr> bd_name = new_policyNumber (newClaimData s),
               bd_encryptedValue = encryptedData er,
               bd_publicValue1 = v,
               bd_publicValue2 = 0,
               bd_description = new_provider (newClaimData s),
               bd_creator = the_address env,
               bd_timestamp = blockTime env,
               bd_decryptedValue = 0,
               bd_isVerified = False \<rparr>)]"
  using assms
  by (simp add: createClaim_defs contract_createBusinessData_def)

lemma createClaim_calls_encrypt_first:
  assumes "isConnected env" and "\<not> no_address env" and "signerContract env"
  shows "\<exists>rest. calls (createClaim env s) =
           calls s @ Encrypt (contractAddress s) (the_address env)
                       (number_or_zero (parseInt (new_claimAmount (newClaimData s)))) # rest"
  using assms
  by (auto simp: createClaim_defs split: option.splits sum.splits prod.splits bool.splits)

lemma createClaim_calls_guarded:
  assumes "\<not> isConnected env \<or> no_address env \<or> \<not> signerContract env"
  shows "calls (createClaim env s) = calls s"
  using assms
  by (auto simp: createClaim_defs message_includes_def TypeError_def js_includes.simps
      split: option.splits sum.splits prod.splits bool.splits)

text \<open>
  When the \<open>encrypt\<close> step fails, whatever it throws, \<open>createClaim\<close> submits no
  transaction and leaves the ledger and the claims as they were; and when what it
  throws is an object whose message is a string or absent, the status is \<open>error\<close>.
\<close>

lemma encrypt_failure_no_write:
  assumes "encrypt env (contractAddress s) (the_address env)
             (number_or_zero (parseInt (new_claimAmount (newClaimData s)))) = Inl e"
  shows "filter is_ledger_write (calls (createClaim env s)) = filter is_ledger_write (calls s) \<and>
         ledger (createClaim env s) = ledger s \<and>
         claims (createClaim env s) = claims s \<and>
         ((\<exists>m. e = JsError m) \<longrightarrow> tx_status (transactionStatus (createClaim env s)) = error)"
  using assms
  by (auto simp: createClaim_defs message_includes_def TypeError_def
      split: option.splits sum.splits prod.splits bool.splits js_error.splits)

text \<open>
  Claim C3 on the code: the \<open>encrypt\<close> step rejects with \<^verbatim>\<open>undefined\<close>. No transaction
  is submitted and the ledger and the claims are unchanged, but the \<^verbatim>\<open>catch\<close> block
  throws on \<^verbatim>\<open>e.message\<close> before it sets the status: the promise of \<open>createClaim\<close>
  rejects and the status stays \<open>pending\<close>, not \<open>error\<close>.
\<close>

theorem encrypt_rejects_undefined_status_pending:
  "createClaim_rejection example_env_nullish (example_state []) = Some TypeError \<and>
   tx_status (transactionStatus (createClaim example_env_nullish (example_state []))) = pending \<and>
   filter is_ledger_write (calls (createClaim example_env_nullish (example_state []))) = [] \<and>
   ledger (createClaim example_env_nullish (example_state [])) = [] \<and>
   claims (createClaim example_env_nullish (example_state [])) = []"
  by (simp add: createClaim_rejection_def createClaim_defs example_env_nullish_fields
      message_includes_def example_state_def)

text \<open>
  Claim C10 as stated fails: with the amount text \<^verbatim>\<open>abc\<close>, an invocation without a
  connected wallet encrypts and submits nothing, and one whose gateway fails asks for
  the encryption of 0 but submits no claim.
\<close>

theorem unparseable_amount_not_submitted_counterexample:
  "parseInt ''abc'' = NaN \<and>
   calls (createClaim example_env_disconnected (with_claimAmount ''abc'' (example_state []))) = [] \<and>
   calls (createClaim example_env_no_gateway (with_claimAmount ''abc'' (example_state []))) =
     [Encrypt ''0xC0'' ''0xA1'' (Finite 0)]"
  by (simp add: parseInt_abc createClaim_defs example_env_disconnected_fields
      example_env_no_gateway_fields message_includes_def number_or_zero_def
      with_claimAmount_def example_state_def)

text \<open>
  Claim C10, amended. When the amount text of the form is empty or does not start with
  an integer (\<^verbatim>\<open>parseInt\<close> gives \<^verbatim>\<open>NaN\<close>), \<open>createClaim\<close> performs no validation and
  takes the amount to be 0. For a connected caller with a signer contract the gateway
  is asked to encrypt 0; when the gateway answers, a claim with the public amount 0 is
  submitted; and when the transaction is accepted under a fresh id, the ledger stores
  the claim with amount 0. Without a connected wallet or a signer contract no call is
  made.
\<close>

theorem unparseable_amount_submitted_as_zero:
  assumes "parseInt (new_claimAmount (newClaimData s)) = NaN"
  shows "(isConnected env \<and> \<not> no_address env \<and> signerContract env \<longrightarrow>
            (\<exists>rest. calls (createClaim env s) =
               calls s @ Encrypt (contractAddress s) (the_address env) (Finite 0) # rest)) \<and>
         (isConnected env \<and> \<not> no_address env \<and> signerContract env \<and>
          encrypt env (contractAddress s) (the_address env) (Finite 0) = Inr er \<longrightarrow>
            calls (createClaim env s) =
              calls s @ [Encrypt (contractAddress s) (the_address env) (Finite 0),
                         CreateBusinessData (businessId_of env)
                           (new_policyNumber (newClaimData s))
                           (encryptedData er) (inputProof er) (Finite 0) (Finite 0)
                           (new_provider (newClaimData s))] \<and>
            (txFault env (CreateBusinessData (businessId_of env)
                           (new_policyNumber (newClaimData s))
                           (encryptedData er) (inputProof er) (Finite 0) (Finite 0)
                           (new_provider (newClaimData s))) = None \<and>
             map_of (ledger s) (businessId_of env) = None \<longrightarrow>
               map (\<lambda>(k, bd). (k, bd_publicValue1 bd, bd_isVerified bd))
                   (ledger (createClaim env s)) =
                 map (\<lambda>(k, bd). (k, bd_publicValue1 bd, bd_isVerified bd)) (ledger s)
                   @ [(businessId_of env, 0, False)])) \<and>
         (\<not> isConnected env \<or> no_address env \<or> \<not> signerContract env \<longrightarrow>
            calls (createClaim env s) = calls s)"
proof -
  from assms have z: "number_or_zero (parseInt (new_claimAmount (newClaimData s))) = Finite 0"
    by (simp add: number_or_zero_def)
  have 1: "\<exists>rest. calls (createClaim env s) =
               calls s @ Encrypt (contractAddress s) (the_address env) (Finite 0) # rest"
    if "isConnected env" "\<not> no_address env" "signerContract env"
    using createClaim_calls_encrypt_first [OF that, of s] by (simp add: z)
  have 2: "calls (createClaim env s) =
              calls s @ [Encrypt (contractAddress s) (the_address env) (Finite 0),
                         CreateBusinessData (businessId_of env)
                           (new_policyNumber (newClaimData s))
                           (encryptedData er) (inputProof er) (Finite 0) (Finite 0)
                           (new_provider (newClaimData s))]"
    if "isConnected env" "\<not> no_address env" "signerContract env"
      "encrypt env (contractAddress s) (the_address env) (Finite 0) = Inr er"
    using createClaim_calls [of env s er] that by (simp add: z)
  have 3: "map (\<lambda>(k, bd). (k, bd_publicValue1 bd, bd_isVerified bd))
                   (ledger (createClaim env s)) =
                 map (\<lambda>(k, bd). (k, bd_publicValue1 bd, bd_isVerified bd)) (ledger s)
                   @ [(businessId_of env, 0, False)]"
    if "isConnected env" "\<not> no_address env" "signerContract env"
      "encrypt env (contractAddress s) (the_address env) (Finite 0) = Inr er"
      "txFault env (CreateBusinessData (businessId_of env)
                           (new_policyNumber (newClaimData s))
                           (encryptedData er) (inputProof er) (Finite 0) (Finite 0)
                           (new_provider (newClaimData s))) = None"
      "map_of (ledger s) (businessId_of env) = None"
    using createClaim_ledger [of env s er 0] that by (simp add: z)
  have 4: "calls (createClaim env s) = calls s"
    if "\<not> isConnected env \<or> no_address env \<or> \<not> signerContract env"
    using createClaim_calls_guarded [OF that] .
  from 1 2 3 4 show ?thesis by blast
qed

theorem unparseable_amount_witness:
  "parseInt (new_claimAmount (newClaimData (with_claimAmount ''abc'' (example_state [])))) = NaN \<and>
   calls (createClaim example_env (with_claimAmount ''abc'' (example_state []))) =
     [Encrypt ''0xC0'' ''0xA1'' (Finite 0),
      CreateBusinessData ''claim-1700000000000'' ''POL-1'' ''0xhandle'' ''0xproof''
        (Finite 0) (Finite 0) ''Acme''] \<and>
   map (\<lambda>(k, bd). (k, bd_publicValue1 bd, bd_isVerified bd))
     (ledger (createClaim example_env (with_claimAmount ''abc'' (example_state [])))) =
     [(''claim-1700000000000'', 0, False)]"
  using unparseable_amount_submitted_as_zero
          [of "with_claimAmount ''abc'' (example_state [])" example_env
              "\<lparr> encryptedData = ''0xhandle'', inputProof = ''0xproof'' \<rparr>"]
  by (simp add: with_claimAmount_def example_state_def parseInt_abc example_env_fields
      example_env_address businessId_example)

text \<open>
  Claim C8 as stated fails: two invocations by two different callers whose clocks read
  the same millisecond submit claims under the same id.
\<close>

theorem same_millisecond_ids_collide_counterexample:
  "address example_env \<noteq> address example_env_B \<and>
   created_ids (calls (createClaim example_env (example_state []))) = [''claim-1700000000000''] \<and>
   created_ids (calls (createClaim example_env_B (example_state []))) = [''claim-1700000000000'']"
proof -
  have "calls (createClaim example_env_B (example_state [])) =
          [Encrypt ''0xC0'' ''0xB2'' (Finite 15000),
           CreateBusinessData ''claim-1700000000000'' ''POL-1'' ''0xhandle'' ''0xproof''
             (Finite 15000) (Finite 0) ''Acme'']"
    using createClaim_calls [of example_env_B "example_state []"
            "\<lparr> encryptedData = ''0xhandle'', inputProof = ''0xproof'' \<rparr>"]
    by (simp add: example_env_B_fields businessId_example_B)
       (simp add: example_state_def parseInt_15000 number_or_zero_def)
  then show ?thesis
    by (simp add: createClaim_example) (simp add: example_env_B_def example_env_def)
qed

lemma digit_char_inj: "a < 10 \<Longrightarrow> b < 10 \<Longrightarrow> digit_char a = digit_char b \<Longrightarrow> a = b"
  by (simp add: digit_char_def nth_eq_iff_index_eq)

lemma show_nat_nonempty: "show_nat n \<noteq> []"
  by (subst show_nat.simps) simp

lemma show_nat_inj: "show_nat m = show_nat n \<Longrightarrow> m = n"
proof (induction m arbitrary: n rule: show_nat.induct)
  case (1 m)
  show ?case
  proof (cases "m < 10")
    case small_m: True
    show ?thesis
    proof (cases "n < 10")
      case True
      with small_m "1.prems" show ?thesis
        by (simp add: show_nat.simps [of m] show_nat.simps [of n] digit_char_inj)
    next
      case False
      with small_m "1.prems" show_nat_nonempty [of "n div 10"] show ?thesis
        by (simp add: show_nat.simps [of m] show_nat.simps [of n])
    qed
  next
    case big_m: False
    show ?thesis
    proof (cases "n < 10")
      case True
      with big_m "1.prems" show_nat_nonempty [of "m div 10"] show ?thesis
        by (simp add: show_nat.simps [of m] show_nat.simps [of n])
    next
      case False
      with big_m "1.prems"
      have eq: "show_nat (m div 10) = show_nat (n div 10)"
        and d: "digit_char (m mod 10) = digit_char (n mod 10)"
        by (simp_all add: show_nat.simps [of m] show_nat.simps [of n])
      from "1.IH" [OF big_m eq] have "m div 10 = n div 10" .
      moreover from d have "m mod 10 = n mod 10"
        by (simp add: digit_char_inj)
      ultimately show ?thesis
        by (metis div_mult_mod_eq)
    qed
  qed
qed

text \<open>
  Claim C8, amended. The id of a claim is \<^verbatim>\<open>claim-\<close> followed by the decimal reading of
  the caller's clock in milliseconds and nothing else: the ids assigned by two
  invocations are distinct exactly when their clock readings differ.
\<close>

theorem businessId_distinct_iff_clock_differs:
  "(businessId_of env1 \<noteq> businessId_of env2) = (dateNow env1 \<noteq> dateNow env2)"
  by (auto simp: businessId_of_def dest: show_nat_inj)

text \<open>
  Claim C9 as stated fails: a successful \<open>createClaim\<close> with the claim date 2020-01-01
  in the form leaves a stored claim whose \<open>claimDate\<close> is 2023-11-14, the UTC day of the
  ledger's timestamp.
\<close>

theorem supplied_claimDate_not_stored_counterexample:
  "new_claimDate (newClaimData (example_state [])) = ''2020-01-01'' \<and>
   tx_status (transactionStatus (createClaim example_env (example_state []))) = success \<and>
   map claimDate (claims (createClaim example_env (example_state []))) = [''2023-11-14'']"
  by (simp add: createClaim_example) (simp add: example_state_def)

text \<open>
  Claim C9, amended. The claim date of the form is not part of what \<open>createClaim\<close>
  submits: the calls made, the resulting ledger and the resulting repository are the
  same whatever claim date the caller supplies. The \<open>claimDate\<close> of a stored claim is
  the date part of the ISO rendering of the ledger's timestamp.
\<close>

theorem claimDate_not_submitted:
  "calls (createClaim env (with_claimDate d s)) = calls (createClaim env s) \<and>
   ledger (createClaim env (with_claimDate d s)) = ledger (createClaim env s) \<and>
   claims (createClaim env (with_claimDate d s)) = claims (createClaim env s) \<and>
   map_sum (\<lambda>e. e) claimDate (claim_of businessId bd) =
     map_sum (\<lambda>e. e) split_T_0 (toISOString (bd_timestamp bd * 1000))"
proof -
  have 1: "calls (createClaim env (with_claimDate d s)) = calls (createClaim env s)"
    by (simp add: createClaim_defs with_claimDate_def
        split: option.splits sum.splits prod.splits bool.splits)
  have 2: "ledger (createClaim env (with_claimDate d s)) = ledger (createClaim env s)"
    by (simp add: createClaim_defs with_claimDate_def
        split: option.splits sum.splits prod.splits bool.splits)
  have 3: "claims (createClaim env (with_claimDate d s)) = claims (createClaim env s)"
    by (auto simp: createClaim_defs with_claimDate_def
        split: option.splits sum.splits prod.splits bool.splits
        intro!: loadClaims_claims_cong)
  have 4: "map_sum (\<lambda>e. e) claimDate (claim_of businessId bd) =
     map_sum (\<lambda>e. e) split_T_0 (toISOString (bd_timestamp bd * 1000))"
    by (simp add: claim_of_def split: sum.splits)
  from 1 2 3 4 show ?thesis by simp
qed

theorem claimDate_not_submitted_witness:
  "claims (createClaim example_env (with_claimDate ''2021-02-03'' (example_state []))) =
     claims (createClaim example_env (example_state [])) \<and>
   map claimDate (claims (createClaim example_env (with_claimDate ''2021-02-03'' (example_state []))))
     = [''2023-11-14'']"
  using claimDate_not_submitted [of example_env "''2021-02-03''" "example_state []"]
  by (simp add: createClaim_example)

section \<open>Properties of decryptClaim\<close>

lemmas decryptClaim_defs =
  decryptClaim_def decryptClaim_try_def decryptClaim_catch_def getBusinessData_def
  set_status_def Let_def

text \<open>
  Claim C1 as stated fails: with the ledger's record of the claim verified and holding
  15000, a call without a connected wallet returns \<^verbatim>\<open>null\<close>; and for a record verified
  with the value \<open>2^53 + 1\<close> the call of a connected caller returns \<open>2^53\<close>, the double
  nearest to the stored value.
\<close>

theorem verified_record_not_returned_counterexample:
  "ledger_verified (ledger (example_state [(''claim-1'', example_bd_verified)])) ''claim-1'' \<and>
   fst (decryptClaim example_env_disconnected ''claim-1''
          (example_state [(''claim-1'', example_bd_verified)])) = Inr None \<and>
   ledger_verified (ledger (example_state [(''claim-1'', example_bd_big)])) ''claim-1'' \<and>
   bd_decryptedValue example_bd_big = 9007199254740993 \<and>
   fst (decryptClaim example_env ''claim-1''
          (example_state [(''claim-1'', example_bd_big)])) = Inr (Some 9007199254740992)"
  by (simp add: decryptClaim_defs example_env_disconnected_fields example_env_fields
      example_env_address ledger_verified_def example_state_def example_bd_big_def
      example_bd_verified_def example_bd_def orZero_def js_Number_above_2_53)

text \<open>
  Claim C1, amended. When the ledger's record of a claim id has \<open>isVerified = true\<close>,
  \<open>decryptClaim\<close> makes no call to the gateway and submits no transaction, whoever
  calls: the trace of calls and the ledger are unchanged. What it returns does not
  depend on the claims held by the client. For a connected caller with a read-only
  contract whose read of the record succeeds, it returns
  \<^verbatim>\<open>Number(businessData.decryptedValue) || 0\<close> (of the stored ABI integer, below
  \<open>2^256\<close>) with the status \<open>success\<close>, at its first read of the ledger, and so does a
  second call right after the first; that number is the stored value when the stored
  value is at most \<open>2^53\<close> in magnitude. Without a connected wallet or a read-only
  contract it returns \<^verbatim>\<open>null\<close>.
\<close>

theorem decryptClaim_verified_short_circuit:
  assumes "map_of (ledger s) businessId = Some bd" and "bd_isVerified bd"
  shows "calls (snd (decryptClaim env businessId s)) = calls s \<and>
         ledger (snd (decryptClaim env businessId s)) = ledger s \<and>
         fst (decryptClaim env businessId (s\<lparr>claims := cs\<rparr>)) = fst (decryptClaim env businessId s) \<and>
         (isConnected env \<and> \<not> no_address env \<and> readOnlyContract env \<and>
          rpcFault env (GetBusinessData businessId) = None \<and>
          \<bar>bd_decryptedValue bd\<bar> < 2 ^ 256 \<longrightarrow>
            fst (decryptClaim env businessId s) = Inr (Some (js_Number (bd_decryptedValue bd))) \<and>
            tx_status (transactionStatus (snd (decryptClaim env businessId s))) = success \<and>
            fst (decryptClaim env businessId (snd (decryptClaim env businessId s)))
              = Inr (Some (js_Number (bd_decryptedValue bd))) \<and>
            run_steps 2 env businessId (Called, s) =
              (Returned (Some (js_Number (bd_decryptedValue bd))),
               snd (decryptClaim env businessId s))) \<and>
         (\<bar>bd_decryptedValue bd\<bar> \<le> 9007199254740992 \<longrightarrow>
            js_Number (bd_decryptedValue bd) = bd_decryptedValue bd) \<and>
         (\<not> isConnected env \<or> no_address env \<or> \<not> readOnlyContract env \<longrightarrow>
            fst (decryptClaim env businessId s) = Inr None)"
proof -
  have 1: "calls (snd (decryptClaim env businessId s)) = calls s"
    using assms
    by (auto simp: decryptClaim_defs message_includes_def
        split: option.splits sum.splits bool.splits js_error.splits)
  have 2: "ledger (snd (decryptClaim env businessId s)) = ledger s"
    using assms
    by (auto simp: decryptClaim_defs message_includes_def
        split: option.splits sum.splits bool.splits js_error.splits)
  have 3: "fst (decryptClaim env businessId (s\<lparr>claims := cs\<rparr>)) = fst (decryptClaim env businessId s)"
    using assms
    by (auto simp: decryptClaim_defs message_includes_def
        split: option.splits sum.splits bool.splits js_error.splits)
  have 4: "fst (decryptClaim env businessId s) = Inr (Some (js_Number (bd_decryptedValue bd))) \<and>
            tx_status (transactionStatus (snd (decryptClaim env businessId s))) = success \<and>
            fst (decryptClaim env businessId (snd (decryptClaim env businessId s)))
              = Inr (Some (js_Number (bd_decryptedValue bd))) \<and>
            run_steps 2 env businessId (Called, s) =
              (Returned (Some (js_Number (bd_decryptedValue bd))),
               snd (decryptClaim env businessId s))"
    if "isConnected env" "\<not> no_address env" "readOnlyContract env"
      "rpcFault env (GetBusinessData businessId) = None"
    using assms that by (simp add: decryptClaim_defs orZero_def eval_nat_numeral)
  have 5: "js_Number (bd_decryptedValue bd) = bd_decryptedValue bd"
    if "\<bar>bd_decryptedValue bd\<bar> \<le> 9007199254740992"
    using that by (rule js_Number_exact)
  have 6: "fst (decryptClaim env businessId s) = Inr None"
    if "\<not> isConnected env \<or> no_address env \<or> \<not> readOnlyContract env"
    using that by (auto simp: decryptClaim_defs)
  from 1 2 3 4 5 6 show ?thesis by blast
qed

theorem decryptClaim_verified_witness:
  "map_of (ledger (example_state [(''claim-1'', example_bd_verified)])) ''claim-1''
     = Some example_bd_verified \<and>
   bd_isVerified example_bd_verified \<and>
   fst (decryptClaim example_env ''claim-1''
          (example_state [(''claim-1'', example_bd_verified)])) = Inr (Some 15000) \<and>
   calls (snd (decryptClaim example_env ''claim-1''
          (example_state [(''claim-1'', example_bd_verified)]))) = [] \<and>
   ledger (snd (decryptClaim example_env ''claim-1''
          (example_state [(''claim-1'', example_bd_verified)])))
     = [(''claim-1'', example_bd_verified)] \<and>
   fst (run_steps 2 example_env ''claim-1''
          (Called, example_state [(''claim-1'', example_bd_verified)])) = Returned (Some 15000)"
  using decryptClaim_verified_short_circuit
          [of "example_state [(''claim-1'', example_bd_verified)]" "''claim-1''"
              example_bd_verified example_env]
  by (simp add: example_env_fields example_env_address js_Number_exact)
     (simp add: example_state_def example_bd_verified_def example_bd_def js_Number_exact)

section \<open>Interleaved calls of decryptClaim\<close>

text \<open>
  The steps compose to the operation: a call that runs alone from \<open>Called\<close> settles
  within six steps, with the result and the state of \<open>decryptClaim\<close>.
\<close>

lemma decryptClaim_run_steps:
  "run_steps 6 env businessId (Called, s) =
     (case fst (decryptClaim env businessId s) of Inr r \<Rightarrow> Returned r | Inl e \<Rightarrow> Rejected e,
      snd (decryptClaim env businessId s))"
  by (simp add: eval_nat_numeral decryptClaim_def decryptClaim_try_def decryptClaim_catch_def
      decrypt_catch_step_def verifyDecryption_def Let_def
      split: sum.splits prod.splits option.splits if_splits bool.splits)

lemma map_of_store_verified:
  "map_of (store_verified b v L) x =
     (case map_of L x of None \<Rightarrow> None
      | Some bd \<Rightarrow> Some (if x = b then bd\<lparr>bd_decryptedValue := v, bd_isVerified := True\<rparr> else bd))"
  by (induction L) (auto simp: store_verified_def)

lemma store_verified_keeps_verified:
  "ledger_verified L x \<Longrightarrow> ledger_verified (store_verified b v L) x"
  by (simp add: ledger_verified_def map_of_store_verified split: option.splits)

lemma catch_step_ledger: "ledger (snd (decrypt_catch_step env e s)) = ledger s"
  by (simp add: decrypt_catch_step_def set_status_def split: sum.splits)

lemma catch_step_calls: "calls (snd (decrypt_catch_step env e s)) = calls s"
  by (simp add: decrypt_catch_step_def set_status_def split: sum.splits)

lemma catch_step_task:
  "fst (decrypt_catch_step env e s) = AwaitRefreshInCatch \<or>
   fst (decrypt_catch_step env e s) = Returned None \<or>
   (\<exists>thrown. fst (decrypt_catch_step env e s) = Rejected thrown)"
  by (simp add: decrypt_catch_step_def split: sum.splits)

lemma step_keeps_verified:
  assumes "decrypt_step env b t s = (t', s')" and "ledger_verified (ledger s) x"
  shows "ledger_verified (ledger s') x"
  using assms
  by (cases t)
     (auto simp: decrypt_catch_step_def set_status_def contractWrite_verifyDecryption_def
        send_tx_def contract_verifyDecryption_def Let_def store_verified_keeps_verified
        split: sum.splits option.splits if_splits prod.splits)

lemma may_submit_mono:
  assumes "\<And>x. ledger_verified L x \<Longrightarrow> ledger_verified L' x"
  shows "may_submit L' b t \<le> may_submit L b t"
  using assms by (cases t) auto

lemma may_submit_le_1: "may_submit L b t \<le> 1"
  by (cases t) auto

lemma step_potential:
  assumes "decrypt_step env b t s = (t', s')"
  shows "submissions b s' + may_submit (ledger s') b t' \<le> submissions b s + may_submit (ledger s) b t"
proof (cases t)
  case Called
  with assms show ?thesis
    by (auto simp: submissions_def set_status_def split: if_splits)
next
  case AwaitBusinessData
  with assms show ?thesis
    by (auto simp: submissions_def set_status_def decrypt_catch_step_def getBusinessData_def
        ledger_verified_def split: if_splits sum.splits option.splits)
next
  case AwaitEncryptedValue
  with assms show ?thesis
    by (auto simp: submissions_def set_status_def decrypt_catch_step_def
        split: if_splits sum.splits)
next
  case (AwaitPublicDecrypt h c)
  with assms show ?thesis
    by (auto simp: submissions_def set_status_def decrypt_catch_step_def Let_def
        split: if_splits sum.splits prod.splits)
next
  case (AwaitSubmit v p)
  with assms show ?thesis
    by (auto simp: submissions_def set_status_def decrypt_catch_step_def
        contractWrite_verifyDecryption_def send_tx_def
        split: if_splits sum.splits prod.splits option.splits)
next
  case (AwaitRefresh v)
  with assms show ?thesis
    by (auto simp: submissions_def set_status_def)
next
  case AwaitRefreshInCatch
  with assms show ?thesis
    by (auto simp: submissions_def)
next
  case (Returned r)
  with assms show ?thesis by auto
next
  case (Rejected e)
  with assms show ?thesis by auto
qed

lemma interleave_potential:
  "interleave env b sched (tA, tB, s) = (tA', tB', s') \<Longrightarrow>
   submissions b s' + may_submit (ledger s') b tA' + may_submit (ledger s') b tB'
     \<le> submissions b s + may_submit (ledger s) b tA + may_submit (ledger s) b tB"
proof (induction sched arbitrary: tA tB s)
  case Nil
  then show ?case by simp
next
  case (Cons c sched)
  show ?case
  proof (cases c)
    case A
    obtain t1 s1 where st: "decrypt_step env b tA s = (t1, s1)" by (cases "decrypt_step env b tA s")
    with Cons.prems A have "interleave env b sched (t1, tB, s1) = (tA', tB', s')" by simp
    from Cons.IH [OF this]
    have "submissions b s' + may_submit (ledger s') b tA' + may_submit (ledger s') b tB'
       \<le> submissions b s1 + may_submit (ledger s1) b t1 + may_submit (ledger s1) b tB" .
    moreover from step_potential [OF st]
    have "submissions b s1 + may_submit (ledger s1) b t1 \<le> submissions b s + may_submit (ledger s) b tA" .
    moreover have "may_submit (ledger s1) b tB \<le> may_submit (ledger s) b tB"
      by (rule may_submit_mono) (rule step_keeps_verified [OF st])
    ultimately show ?thesis by linarith
  next
    case B
    obtain t1 s1 where st: "decrypt_step env b tB s = (t1, s1)" by (cases "decrypt_step env b tB s")
    with Cons.prems B have "interleave env b sched (tA, t1, s1) = (tA', tB', s')" by simp
    from Cons.IH [OF this]
    have "submissions b s' + may_submit (ledger s') b tA' + may_submit (ledger s') b tB'
       \<le> submissions b s1 + may_submit (ledger s1) b tA + may_submit (ledger s1) b t1" .
    moreover from step_potential [OF st]
    have "submissions b s1 + may_submit (ledger s1) b t1 \<le> submissions b s + may_submit (ledger s) b tB" .
    moreover have "may_submit (ledger s1) b tA \<le> may_submit (ledger s) b tA"
      by (rule may_submit_mono) (rule step_keeps_verified [OF st])
    ultimately show ?thesis by linarith
  qed
qed

lemma loadClaims_status:
  "rpcFault env GetAllBusinessIds = None \<Longrightarrow>
   transactionStatus (loadClaims env s) = transactionStatus s"
  by (simp add: loadClaims_def getAllBusinessIds_def Let_def)

lemma step_submissions_mono:
  assumes "decrypt_step env b t s = (t', s')"
  shows "submissions b s \<le> submissions b s'"
  using assms
  by (cases t)
     (auto simp: submissions_def decrypt_catch_step_def set_status_def
        contractWrite_verifyDecryption_def send_tx_def Let_def
        split: sum.splits option.splits if_splits prod.splits)

lemma interleave_submissions_mono:
  "interleave env b sched (tA, tB, s) = (tA', tB', s') \<Longrightarrow> submissions b s \<le> submissions b s'"
proof (induction sched arbitrary: tA tB s)
  case Nil
  then show ?case by simp
next
  case (Cons c sched)
  show ?case
  proof (cases c)
    case A
    obtain t1 s1 where st: "decrypt_step env b tA s = (t1, s1)" by (cases "decrypt_step env b tA s")
    with Cons.prems A have "interleave env b sched (t1, tB, s1) = (tA', tB', s')" by simp
    from Cons.IH [OF this] step_submissions_mono [OF st] show ?thesis by linarith
  next
    case B
    obtain t1 s1 where st: "decrypt_step env b tB s = (t1, s1)" by (cases "decrypt_step env b tB s")
    with Cons.prems B have "interleave env b sched (tA, t1, s1) = (tA', tB', s')" by simp
    from Cons.IH [OF this] step_submissions_mono [OF st] show ?thesis by linarith
  qed
qed

lemma run_steps_potential:
  "run_steps n env b (t, s) = (t', s') \<Longrightarrow>
   submissions b s' + may_submit (ledger s') b t' \<le> submissions b s + may_submit (ledger s) b t"
proof (induction n arbitrary: t s)
  case 0
  then show ?case by simp
next
  case (Suc n)
  obtain t1 s1 where st: "decrypt_step env b t s = (t1, s1)" by (cases "decrypt_step env b t s")
  with Suc.prems have "run_steps n env b (t1, s1) = (t', s')" by simp
  from Suc.IH [OF this] step_potential [OF st] show ?case by linarith
qed

lemma example_run:
  "interleave example_env ''claim-1'' [A, B, A, B, A, B, A, B, A, B]
     (Called, Called, example_state [(''claim-1'', example_bd)]) =
   (AwaitRefresh 15000, AwaitRefreshInCatch,
    \<lparr> claims = [], isRefreshing = False, showCreateModal = True, creatingClaim = False,
      transactionStatus = \<lparr> visible = True, tx_status = success,
                            tx_message = ''Data is already verified on-chain'' \<rparr>,
      newClaimData = \<lparr> new_policyNumber = ''POL-1'', new_claimAmount = ''15000'',
                       new_provider = ''Acme'', new_claimDate = ''2020-01-01'' \<rparr>,
      contractAddress = ''0xC0'',
      ledger = [(''claim-1'', example_bd_verified)],
      calls = [RequestDecryption [''0xhandle''] ''0xC0'',
               RequestDecryption [''0xhandle''] ''0xC0'',
               VerifyDecryption ''claim-1'' 15000 ''0xsig'',
               VerifyDecryption ''claim-1'' 15000 ''0xsig''] \<rparr>)"
  by (simp add: decrypt_catch_step_def getBusinessData_def getEncryptedValue_def
      contractWrite_verifyDecryption_def send_tx_def contract_verifyDecryption_def
      store_verified_def set_status_def example_env_fields example_env_address
      example_state_def example_bd_def example_bd_verified_def message_includes_def Let_def)

lemma interleave_append:
  "interleave env b (xs @ ys) cfg = interleave env b ys (interleave env b xs cfg)"
proof (induction xs arbitrary: cfg)
  case Nil
  then show ?case by simp
next
  case (Cons c xs)
  obtain tA tB s where cfg: "cfg = (tA, tB, s)" by (cases cfg)
  show ?case
    by (cases c) (simp_all add: cfg Cons.IH split: prod.splits)
qed

text \<open>
  Claim C4 as stated fails: two calls for the same unverified claim, resumed in turn,
  both read \<open>isVerified = false\<close>, both obtain a proof from the gateway and both submit a
  \<^verbatim>\<open>verifyDecryption\<close> transaction for the id (the ledger accepts the first and rejects
  the second as already verified).
\<close>

theorem interleaved_calls_submit_twice_counterexample:
  "submissions ''claim-1''
     (snd (snd (interleave example_env ''claim-1'' [A, B, A, B, A, B, A, B, A, B]
        (Called, Called, example_state [(''claim-1'', example_bd)])))) = 2"
  unfolding example_run by (simp add: submissions_def)

text \<open>
  Claim C4, amended. \<open>decryptClaim\<close> has no in-flight guard. A call submits at most one
  \<^verbatim>\<open>verifyDecryption\<close> transaction, so two interleaved calls for one id submit at most
  two, under every schedule; and a call made when the ledger already shows the claim
  verified, after the other call has returned, submits none.
\<close>

theorem decrypt_submissions_bounded:
  "submissions b (snd (run_steps n env b (Called, s))) \<le> submissions b s + 1 \<and>
   submissions b (snd (snd (interleave env b sched (Called, Called, s)))) \<le> submissions b s + 2 \<and>
   (ledger_verified (ledger s) b \<longrightarrow>
      submissions b (snd (snd (interleave env b sched (Returned r, Called, s)))) = submissions b s)"
proof (intro conjI impI)
  obtain t' s' where r: "run_steps n env b (Called, s) = (t', s')"
    by (cases "run_steps n env b (Called, s)")
  from run_steps_potential [OF r] may_submit_le_1 [of "ledger s" b Called]
  show "submissions b (snd (run_steps n env b (Called, s))) \<le> submissions b s + 1"
    by (simp add: r)
next
  obtain tA' tB' s' where r: "interleave env b sched (Called, Called, s) = (tA', tB', s')"
    by (cases "interleave env b sched (Called, Called, s)")
  from interleave_potential [OF r] may_submit_le_1 [of "ledger s" b Called]
  show "submissions b (snd (snd (interleave env b sched (Called, Called, s)))) \<le> submissions b s + 2"
    by (simp add: r)
next
  assume v: "ledger_verified (ledger s) b"
  obtain tA' tB' s' where r: "interleave env b sched (Returned r, Called, s) = (tA', tB', s')"
    by (cases "interleave env b sched (Returned r, Called, s)")
  from interleave_potential [OF r] interleave_submissions_mono [OF r] v
  show "submissions b (snd (snd (interleave env b sched (Returned r, Called, s)))) = submissions b s"
    by (simp add: r)
qed

theorem decrypt_submissions_bounded_witness:
  "ledger_verified (ledger (example_state [(''claim-1'', example_bd_verified)])) ''claim-1'' \<and>
   submissions ''claim-1''
     (snd (snd (interleave example_env ''claim-1'' [B, B]
        (Returned (Some 15000), Called, example_state [(''claim-1'', example_bd_verified)])))) = 0"
  using decrypt_submissions_bounded
          [where b = "''claim-1''" and s = "example_state [(''claim-1'', example_bd_verified)]"
             and env = example_env and sched = "[B, B]" and r = "Some 15000" and n = 0]
  by (simp add: ledger_verified_def example_state_def example_bd_verified_def submissions_def)

text \<open>
  Claim C2 on the code: call \<open>B\<close> of the run above passes the initial check, the ledger
  then verifies the claim for call \<open>A\<close>, and the ledger rejects the transaction of \<open>B\<close>
  with \<^verbatim>\<open>Data already verified\<close>. The status is \<open>success\<close> and the ledger stores the
  value 15000, but \<open>B\<close> resolves with \<^verbatim>\<open>null\<close> (\<open>None\<close>), not with the stored value.
\<close>

theorem already_verified_midflight_returns_null:
  "fst (interleave example_env ''claim-1'' [A, B, A, B, A, B, A, B, A, B, A, B]
          (Called, Called, example_state [(''claim-1'', example_bd)]))
     = Returned (Some 15000) \<and>
   fst (snd (interleave example_env ''claim-1'' [A, B, A, B, A, B, A, B, A, B, A, B]
          (Called, Called, example_state [(''claim-1'', example_bd)])))
     = Returned None \<and>
   tx_status (transactionStatus
      (snd (snd (interleave example_env ''claim-1'' [A, B, A, B, A, B, A, B, A, B, A, B]
          (Called, Called, example_state [(''claim-1'', example_bd)])))))
     = success \<and>
   map_of (ledger
      (snd (snd (interleave example_env ''claim-1'' [A, B, A, B, A, B, A, B, A, B, A, B]
          (Called, Called, example_state [(''claim-1'', example_bd)])))))
      ''claim-1''
     = Some example_bd_verified \<and>
   bd_decryptedValue example_bd_verified = 15000"
proof -
  have run: "interleave example_env ''claim-1'' [A, B, A, B, A, B, A, B, A, B, A, B]
          (Called, Called, example_state [(''claim-1'', example_bd)]) =
        interleave example_env ''claim-1'' [A, B]
          (interleave example_env ''claim-1'' [A, B, A, B, A, B, A, B, A, B]
             (Called, Called, example_state [(''claim-1'', example_bd)]))"
    using interleave_append [of example_env "''claim-1''" "[A, B, A, B, A, B, A, B, A, B]" "[A, B]"
            "(Called, Called, example_state [(''claim-1'', example_bd)])"]
    by (simp only: append_Cons append_Nil)
  show ?thesis
    unfolding run example_run
    by (simp add: loadClaims_status example_env_fields set_status_def example_bd_verified_def
        js_Number_exact)
qed

end
